theory Spec2Isabelle
  imports Complex_Main
begin

section \<open>Python values used by \<^verbatim>\<open>backend/first_assistant.py\<close>\<close>

text \<open>
  A Python \<^verbatim>\<open>str\<close> is a \<open>string\<close> (its UTF-8 bytes; a \<^verbatim>\<open>str\<close> without a UTF-8 encoding,
  that is one holding a lone surrogate, is not modelled), a \<^verbatim>\<open>bytes\<close> object a list of
  bytes. A Python \<^verbatim>\<open>float\<close> is the rational its literal denotes (the rounding to a binary
  double is not modelled), or one of the three special values.
\<close>

type_synonym bytes = "char list"

datatype pyfloat = Finite rat | PosInf | NegInf | NaN

text \<open>
  What \<^verbatim>\<open>json.loads\<close> returns and what a request body holds: \<^verbatim>\<open>None\<close>, \<^verbatim>\<open>bool\<close>,
  \<^verbatim>\<open>int\<close>, \<^verbatim>\<open>float\<close>, \<^verbatim>\<open>str\<close>, \<^verbatim>\<open>list\<close> and \<^verbatim>\<open>dict\<close>. A dict is an association list in
  insertion order; its keys are distinct, and \<open>map_of\<close> is the lookup.
\<close>

datatype json =
    JNull
  | JBool bool
  | JInt int
  | JFloat pyfloat
  | JStr string
  | JArr "json list"
  | JObj "(string \<times> json) list"

fun type_name :: "json \<Rightarrow> string" where
  "type_name JNull = ''NoneType''"
| "type_name (JBool _) = ''bool''"
| "type_name (JInt _) = ''int''"
| "type_name (JFloat _) = ''float''"
| "type_name (JStr _) = ''str''"
| "type_name (JArr _) = ''list''"
| "type_name (JObj _) = ''dict''"

subsection \<open>Exceptions and their text\<close>

text \<open>Decimal rendering of a natural number, as \<^verbatim>\<open>%d\<close> gives it.\<close>

fun show_nat :: "nat \<Rightarrow> string" where
  "show_nat n =
     (if n < 10 then [''0123456789'' ! n]
      else show_nat (n div 10) @ [''0123456789'' ! (n mod 10)])"

declare show_nat.simps [simp del]

text \<open>
  Every exception below is a subclass of \<^verbatim>\<open>Exception\<close>, so \<^verbatim>\<open>except Exception\<close> catches
  it. \<open>Exception\<close> stands for any other such class (the vendor clients' errors, an I/O error);
  its argument is what \<^verbatim>\<open>str(e)\<close> gives. A \<open>JSONDecodeError\<close> holds its message, line, column
  and position; a pydantic \<open>ValidationError\<close> holds the model's name and one entry (location,
  message) per failing field.
\<close>

datatype exn =
    Exception string
  | ValueError string
  | IndexError string
  | TypeError string
  | JSONDecodeError string nat nat nat
  | ValidationError string "(string list \<times> string) list"

fun join :: "string \<Rightarrow> string list \<Rightarrow> string" where
  "join sep [] = []"
| "join sep [x] = x"
| "join sep (x # y # ys) = x @ sep @ join sep (y # ys)"

definition error_line :: "string list \<times> string \<Rightarrow> string" where
  "error_line e = ''\<newline>'' @ join ''.'' (fst e) @ ''\<newline>  '' @ snd e"

text \<open>
  \<^verbatim>\<open>str(e)\<close>. For a \<open>JSONDecodeError\<close> it is the standard library's
  \<^verbatim>\<open>'%s: line %d column %d (char %d)'\<close>. For a \<open>ValidationError\<close> it is pydantic's header line
  and, per error, the location line and the message line; the bracketed tail of each message
  line (error type, echoed input) and the documentation link under it are left out.
\<close>

fun str_exn :: "exn \<Rightarrow> string" where
  "str_exn (Exception m) = m"
| "str_exn (ValueError m) = m"
| "str_exn (IndexError m) = m"
| "str_exn (TypeError m) = m"
| "str_exn (JSONDecodeError m l c p) =
     m @ '': line '' @ show_nat l @ '' column '' @ show_nat c @ '' (char '' @ show_nat p @ '')''"
| "str_exn (ValidationError title errors) =
     show_nat (length errors) @ '' validation error'' @ (if length errors = 1 then [] else ''s'')
       @ '' for '' @ title @ concat (map error_line errors)"

section \<open>Startup: the API key check (lines 20--23) and the clients (lines 37--38)\<close>

text \<open>
  \<open>environ\<close> is the process environment as \<^verbatim>\<open>os.getenv\<close> reads it at line 20, that is
  after \<^verbatim>\<open>load_dotenv()\<close> has added the entries of the \<^verbatim>\<open>.env\<close> file. \<^verbatim>\<open>not os.getenv(k)\<close> is
  true when the variable is unset and also when it is the empty string.
\<close>

definition truthy :: "string option \<Rightarrow> bool" where
  "truthy v = (case v of None \<Rightarrow> False | Some s \<Rightarrow> s \<noteq> [])"

text \<open>
  \<^verbatim>\<open>x or d\<close> and \<^verbatim>\<open>x if x else d\<close> for an optional string \<open>x\<close>: \<open>d\<close> when \<open>x\<close> is \<^verbatim>\<open>None\<close> or
  empty.
\<close>

definition or_else :: "string option \<Rightarrow> string \<Rightarrow> string" where
  "or_else v d = (case v of None \<Rightarrow> d | Some s \<Rightarrow> if s \<noteq> [] then s else d)"

record clients =
  openai_api_key :: "string option"
  elevenlabs_api_key :: "string option"

definition startup :: "(string \<rightharpoonup> string) \<Rightarrow> exn + clients" where
  "startup environ =
     (if \<not> truthy (environ ''OPENAI_API_KEY'') then
        Inl (ValueError ''OPENAI_API_KEY is missing in .env'')
      else if \<not> truthy (environ ''ELEVENLABS_API_KEY'') then
        Inl (ValueError ''ELEVENLABS_API_KEY is missing in .env'')
      else
        Inr \<lparr>openai_api_key = environ ''OPENAI_API_KEY'',
             elevenlabs_api_key = environ ''ELEVENLABS_API_KEY''\<rparr>)"

section \<open>Data models (lines 42--65)\<close>

subsection \<open>Pydantic validation of a field\<close>

text \<open>
  The models are pydantic (version 2) models with the default configuration: validation is
  lax, unknown keys are ignored, and all errors of a model are collected, in field order.
  A validator returns the value or the list of errors, each with its location.
\<close>

type_synonym 'a validated = "(string list \<times> string) list + 'a"

definition ap :: "('a \<Rightarrow> 'b) validated \<Rightarrow> 'a validated \<Rightarrow> 'b validated" where
  "ap f x =
     (case f of
        Inl d \<Rightarrow> (case x of Inl e \<Rightarrow> Inl (d @ e) | Inr _ \<Rightarrow> Inl d)
      | Inr g \<Rightarrow> (case x of Inl e \<Rightarrow> Inl e | Inr a \<Rightarrow> Inr (g a)))"

definition located :: "string \<Rightarrow> 'a validated \<Rightarrow> 'a validated" where
  "located name x =
     (case x of Inl es \<Rightarrow> Inl (map (\<lambda>e. (name # fst e, snd e)) es) | Inr a \<Rightarrow> Inr a)"

text \<open>A \<^verbatim>\<open>str\<close> field takes a string and nothing else.\<close>

fun validate_str :: "json \<Rightarrow> string validated" where
  "validate_str (JStr s) = Inr s"
| "validate_str _ = Inl [([], ''Input should be a valid string'')]"

definition ascii_lower :: "char \<Rightarrow> char" where
  "ascii_lower c =
     (case map_of (zip ''ABCDEFGHIJKLMNOPQRSTUVWXYZ'' ''abcdefghijklmnopqrstuvwxyz'') c of
        Some l \<Rightarrow> l
      | None \<Rightarrow> c)"

text \<open>
  A \<^verbatim>\<open>bool\<close> field in lax mode takes a boolean, the numbers 0 and 1, and the strings below,
  compared without regard to ASCII case (\<^verbatim>\<open>"0"\<close> and \<^verbatim>\<open>"1"\<close> exactly). A string or a number
  in the 64-bit range that it cannot read gets the parsing message; every other value, also an
  integer or an integral float beyond that range, gets the type message.
\<close>

definition str_as_bool :: "string \<Rightarrow> bool option" where
  "str_as_bool s =
     (let l = map ascii_lower s in
      if s = ''0'' \<or> l = ''f'' \<or> l = ''n'' \<or> l = ''no'' \<or> l = ''off'' \<or> l = ''false'' then Some False
      else if s = ''1'' \<or> l = ''t'' \<or> l = ''y'' \<or> l = ''on'' \<or> l = ''yes'' \<or> l = ''true'' then Some True
      else None)"

definition int_as_bool :: "int \<Rightarrow> bool option" where
  "int_as_bool i = (if i = 0 then Some False else if i = 1 then Some True else None)"

definition bool_type_error :: "bool validated" where
  "bool_type_error = Inl [([], ''Input should be a valid boolean'')]"

definition bool_parsing_error :: "bool validated" where
  "bool_parsing_error = Inl [([], ''Input should be a valid boolean, unable to interpret input'')]"

fun validate_bool :: "json \<Rightarrow> bool validated" where
  "validate_bool (JBool b) = Inr b"
| "validate_bool (JStr s) =
     (case str_as_bool s of Some b \<Rightarrow> Inr b | None \<Rightarrow> bool_parsing_error)"
| "validate_bool (JInt i) =
     (if - (2 ^ 63) \<le> i \<and> i < 2 ^ 63 then
        (case int_as_bool i of Some b \<Rightarrow> Inr b | None \<Rightarrow> bool_parsing_error)
      else bool_type_error)"
| "validate_bool (JFloat (Finite q)) =
     (if q = of_int \<lfloor>q\<rfloor> \<and> - (2 ^ 63) < \<lfloor>q\<rfloor> \<and> \<lfloor>q\<rfloor> < 2 ^ 63 then
        (case int_as_bool \<lfloor>q\<rfloor> of Some b \<Rightarrow> Inr b | None \<Rightarrow> bool_parsing_error)
      else bool_type_error)"
| "validate_bool _ = bool_type_error"

text \<open>\<^verbatim>\<open>Optional[T]\<close>: \<^verbatim>\<open>None\<close>, or what \<^verbatim>\<open>T\<close> takes.\<close>

fun validate_optional :: "(json \<Rightarrow> 'a validated) \<Rightarrow> json \<Rightarrow> 'a option validated" where
  "validate_optional v JNull = Inr None"
| "validate_optional v x = (case v x of Inl es \<Rightarrow> Inl es | Inr a \<Rightarrow> Inr (Some a))"

text \<open>\<^verbatim>\<open>List[T]\<close>: a list whose items \<^verbatim>\<open>T\<close> takes; an item's error is located by its index.\<close>

fun validate_items :: "(json \<Rightarrow> 'a validated) \<Rightarrow> nat \<Rightarrow> json list \<Rightarrow> 'a list validated" where
  "validate_items v i [] = Inr []"
| "validate_items v i (x # xs) =
     ap (ap (Inr (\<lambda>a as. a # as)) (located (show_nat i) (v x))) (validate_items v (Suc i) xs)"

fun validate_list :: "(json \<Rightarrow> 'a validated) \<Rightarrow> json \<Rightarrow> 'a list validated" where
  "validate_list v (JArr xs) = validate_items v 0 xs"
| "validate_list v _ = Inl [([], ''Input should be a valid list'')]"

text \<open>A field without a default is required; a field with one takes it when the key is absent.\<close>

definition required_field ::
  "string \<Rightarrow> (json \<Rightarrow> 'a validated) \<Rightarrow> (string \<times> json) list \<Rightarrow> 'a validated" where
  "required_field name v data =
     (case map_of data name of
        None \<Rightarrow> Inl [([name], ''Field required'')]
      | Some x \<Rightarrow> located name (v x))"

definition default_field ::
  "string \<Rightarrow> (json \<Rightarrow> 'a validated) \<Rightarrow> 'a \<Rightarrow> (string \<times> json) list \<Rightarrow> 'a validated" where
  "default_field name v d data =
     (case map_of data name of
        None \<Rightarrow> Inr d
      | Some x \<Rightarrow> located name (v x))"

subsection \<open>Pydantic JSON output\<close>

definition hex_digit :: "nat \<Rightarrow> char" where
  "hex_digit n = ''0123456789abcdef'' ! (n mod 16)"

definition json_escape :: "char \<Rightarrow> string" where
  "json_escape c =
     (if c = CHR 0x22 then [CHR 0x5C, CHR 0x22]
      else if c = CHR 0x5C then [CHR 0x5C, CHR 0x5C]
      else if c = CHR 0x08 then [CHR 0x5C, CHR ''b'']
      else if c = CHR 0x09 then [CHR 0x5C, CHR ''t'']
      else if c = CHR 0x0A then [CHR 0x5C, CHR ''n'']
      else if c = CHR 0x0C then [CHR 0x5C, CHR ''f'']
      else if c = CHR 0x0D then [CHR 0x5C, CHR ''r'']
      else if (of_char c :: nat) < 32 then
        [CHR 0x5C, CHR ''u'', CHR ''0'', CHR ''0'',
         hex_digit ((of_char c :: nat) div 16), hex_digit (of_char c :: nat)]
      else [c])"

definition dump_str :: "string \<Rightarrow> string" where
  "dump_str s = [CHR 0x22] @ concat (map json_escape s) @ [CHR 0x22]"

definition dump_optional :: "('a \<Rightarrow> string) \<Rightarrow> 'a option \<Rightarrow> string" where
  "dump_optional d v = (case v of None \<Rightarrow> ''null'' | Some a \<Rightarrow> d a)"

definition dump_list :: "('a \<Rightarrow> string) \<Rightarrow> 'a list \<Rightarrow> string" where
  "dump_list d xs = ''['' @ join '','' (map d xs) @ '']''"

subsection \<open>The models\<close>

record FounderProfile =
  industry :: "string option"
  stage :: "string option"
  key_challenges :: "string list option"

text \<open>\<^verbatim>\<open>model_dump_json()\<close>: the fields in declaration order, without spaces.\<close>

definition model_dump_json :: "FounderProfile \<Rightarrow> string" where
  \<open>model_dump_json p =
     ''{"industry":'' @ dump_optional dump_str (industry p)
     @ '',"stage":'' @ dump_optional dump_str (stage p)
     @ '',"key_challenges":'' @ dump_optional (dump_list dump_str) (key_challenges p)
     @ ''}''\<close>

record UserRequest =
  user_message :: string
  founder_profile :: "FounderProfile option"
  active_mentor_track :: "string option"
  memory_context :: "string option"

record MentorResponse =
  mentor_track :: string
  switched_track :: bool
  reply :: string
  clarifying_question :: "string option"
  next_actions :: "string list"
  memory_update :: string

definition MentorResponse_validate :: "(string \<times> json) list \<Rightarrow> MentorResponse validated" where
  "MentorResponse_validate data =
     ap (ap (ap (ap (ap (ap
       (Inr (\<lambda>a b c d e f.
          \<lparr>mentor_track = a, switched_track = b, reply = c, clarifying_question = d,
           next_actions = e, memory_update = f\<rparr>))
       (required_field ''mentor_track'' validate_str data))
       (required_field ''switched_track'' validate_bool data))
       (required_field ''reply'' validate_str data))
       (default_field ''clarifying_question'' (validate_optional validate_str) None data))
       (required_field ''next_actions'' (validate_list validate_str) data))
       (required_field ''memory_update'' validate_str data)"

text \<open>
  \<^verbatim>\<open>MentorResponse(**data)\<close>: \<^verbatim>\<open>**\<close> needs a mapping (the text of the \<^verbatim>\<open>TypeError\<close> names
  the class with its module, \<^verbatim>\<open>first_assistant\<close> when the file is imported under its own name);
  a mapping is validated.
\<close>

fun MentorResponse_init :: "json \<Rightarrow> exn + MentorResponse" where
  "MentorResponse_init (JObj data) =
     (case MentorResponse_validate data of
        Inl errors \<Rightarrow> Inl (ValidationError ''MentorResponse'' errors)
      | Inr r \<Rightarrow> Inr r)"
| "MentorResponse_init data =
     Inl (TypeError
       (''first_assistant.MentorResponse() argument after ** must be a mapping, not ''
        @ type_name data))"

text \<open>
  The body of the 200 response: the endpoint declares \<^verbatim>\<open>response_model=MentorResponse\<close>, so
  the returned model is written out with all its fields, \<^verbatim>\<open>None\<close> as \<^verbatim>\<open>null\<close>.
\<close>

definition MentorResponse_dump :: "MentorResponse \<Rightarrow> (string \<times> json) list" where
  "MentorResponse_dump r =
     [(''mentor_track'', JStr (mentor_track r)),
      (''switched_track'', JBool (switched_track r)),
      (''reply'', JStr (reply r)),
      (''clarifying_question'', (case clarifying_question r of None \<Rightarrow> JNull | Some q \<Rightarrow> JStr q)),
      (''next_actions'', JArr (map JStr (next_actions r))),
      (''memory_update'', JStr (memory_update r))]"

text \<open>
  The declared schema of \<open>MentorResponse\<close> (lines 53--59) read on a JSON object: every
  required key holds a value of the declared JSON type, \<^verbatim>\<open>clarifying_question\<close> is a string,
  \<^verbatim>\<open>null\<close> or absent. Other keys are not looked at.
\<close>

definition is_str :: "json \<Rightarrow> bool" where
  "is_str j = (case j of JStr _ \<Rightarrow> True | _ \<Rightarrow> False)"

definition is_bool :: "json \<Rightarrow> bool" where
  "is_bool j = (case j of JBool _ \<Rightarrow> True | _ \<Rightarrow> False)"

definition is_str_list :: "json \<Rightarrow> bool" where
  "is_str_list j = (case j of JArr xs \<Rightarrow> list_all is_str xs | _ \<Rightarrow> False)"

definition holds :: "(json \<Rightarrow> bool) \<Rightarrow> json option \<Rightarrow> bool" where
  "holds P v = (case v of None \<Rightarrow> False | Some j \<Rightarrow> P j)"

definition MentorResponse_schema :: "(string \<times> json) list \<Rightarrow> bool" where
  "MentorResponse_schema data =
     (holds is_str (map_of data ''mentor_track'')
      \<and> holds is_bool (map_of data ''switched_track'')
      \<and> holds is_str (map_of data ''reply'')
      \<and> (case map_of data ''clarifying_question'' of
            None \<Rightarrow> True | Some j \<Rightarrow> j = JNull \<or> is_str j)
      \<and> holds is_str_list (map_of data ''next_actions'')
      \<and> holds is_str (map_of data ''memory_update''))"

text \<open>
  What the validation takes: as the schema, but \<^verbatim>\<open>switched_track\<close> may be any value that a
  lax \<^verbatim>\<open>bool\<close> field converts.
\<close>

definition is_lax_bool :: "json \<Rightarrow> bool" where
  "is_lax_bool j = (case validate_bool j of Inr _ \<Rightarrow> True | Inl _ \<Rightarrow> False)"

definition MentorResponse_accepts :: "json \<Rightarrow> bool" where
  "MentorResponse_accepts j =
     (case j of
        JObj data \<Rightarrow>
          holds is_str (map_of data ''mentor_track'')
          \<and> holds is_lax_bool (map_of data ''switched_track'')
          \<and> holds is_str (map_of data ''reply'')
          \<and> (case map_of data ''clarifying_question'' of
                None \<Rightarrow> True | Some j \<Rightarrow> j = JNull \<or> is_str j)
          \<and> holds is_str_list (map_of data ''next_actions'')
          \<and> holds is_str (map_of data ''memory_update'')
      | _ \<Rightarrow> False)"

text \<open>The field \<^verbatim>\<open>text\<close> is \<open>text'\<close> here (\<open>text\<close> is a keyword).\<close>

record TTSRequest =
  text' :: string
  voice_id :: "string option"
  model_id :: "string option"
  output_format :: "string option"

text \<open>The request body of \<^verbatim>\<open>/api/voice/speak\<close>, validated into a \<open>TTSRequest\<close>.\<close>

definition TTSRequest_validate :: "(string \<times> json) list \<Rightarrow> TTSRequest validated" where
  "TTSRequest_validate data =
     ap (ap (ap (ap
       (Inr (\<lambda>a b c d. \<lparr>text' = a, voice_id = b, model_id = c, output_format = d\<rparr>))
       (required_field ''text'' validate_str data))
       (default_field ''voice_id'' (validate_optional validate_str) (Some ''JBFqnCBsd6RMkjVDRZzb'') data))
       (default_field ''model_id'' (validate_optional validate_str) (Some ''eleven_monolingual_v1'') data))
       (default_field ''output_format'' (validate_optional validate_str) (Some ''mp3_44100_128'') data)"

section \<open>The external services and what a handler does\<close>

record message =
  role :: string
  content :: string

text \<open>The keyword arguments of \<^verbatim>\<open>openai_client.chat.completions.create\<close>.\<close>

record chat_kwargs =
  model :: string
  response_format :: "(string \<times> string) list"
  messages :: "message list"
  temperature :: pyfloat

text \<open>A completion: per choice, its \<^verbatim>\<open>message.content\<close> (which may be \<^verbatim>\<open>None\<close>).\<close>

record completion =
  choices :: "string option list"

text \<open>The keyword arguments of \<^verbatim>\<open>elevenlabs_client.text_to_speech.convert\<close>.\<close>

record convert_kwargs =
  arg_voice_id :: "string option"
  arg_model_id :: "string option"
  arg_text :: string
  arg_output_format :: "string option"

text \<open>
  What \<^verbatim>\<open>convert\<close> returns: an iterator that yields the chunks and then either stops
  (\<open>None\<close>) or raises.
\<close>

datatype audio_stream = AudioStream (chunks: "bytes list") (failure: "exn option")

text \<open>
  The keyword arguments of \<^verbatim>\<open>openai_client.audio.transcriptions.create\<close>: the model and the
  \<^verbatim>\<open>BytesIO\<close> file, that is its \<^verbatim>\<open>name\<close> and its bytes.
\<close>

record transcription_kwargs =
  transcription_model :: string
  file_name :: string
  file_bytes :: bytes

record transcript =
  transcript_text :: string

text \<open>
  The world outside the module: the three vendor calls, each returning or raising, and
  \<^verbatim>\<open>json.loads\<close>, which returns the value or raises a \<^verbatim>\<open>JSONDecodeError\<close> (message, line,
  column, position).
\<close>

record externals =
  chat_completions_create :: "chat_kwargs \<Rightarrow> exn + completion"
  json_loads :: "string \<Rightarrow> (string \<times> nat \<times> nat \<times> nat) + json"
  text_to_speech_convert :: "convert_kwargs \<Rightarrow> exn + audio_stream"
  audio_transcriptions_create :: "transcription_kwargs \<Rightarrow> exn + transcript"

datatype vendor_call =
    ChatCompletionsCreate chat_kwargs
  | TextToSpeechConvert convert_kwargs
  | TranscriptionsCreate transcription_kwargs

datatype HTTPException = HTTPException (status_code: nat) (detail: string)

text \<open>
  What running a handler does: the vendor calls it made, the lines it printed, and what it
  returned (answered with status 200) or the \<open>HTTPException\<close> it raised.
\<close>

record 'a outcome =
  sent :: "vendor_call list"
  stdout :: "string list"
  result :: "HTTPException + 'a"

section \<open>The mentor-routing relay (lines 69--125)\<close>

definition SYSTEM_PROMPT_TEMPLATE :: string where
  \<open>SYSTEM_PROMPT_TEMPLATE =
        ''\<newline>''
      @ ''You are the Mentorra Routing Agent. You act as the brain behind a founder'' @ [CHR 0x27] @ ''s mentorship experience.\<newline>''
      @ ''\<newline>''
      @ ''You will receive:\<newline>''
      @ ''- role: The current agent role (Router & Mentor Persona)\<newline>''
      @ ''- user_message: A single string from the founder\<newline>''
      @ ''- founder_profile: JSON summary of what we know so far\<newline>''
      @ ''- active_mentor: Current mentor track id if already selected\<newline>''
      @ ''- memory_context: Previous context of the conversation\<newline>''
      @ ''\<newline>''
      @ ''Primary goals:\<newline>''
      @ ''1) Classify the user'' @ [CHR 0xE2, CHR 0x80, CHR 0x99] @ ''s message into exactly ONE mentor track (e.g., "Product", "Sales", "Fundraising", "Leadership", "Growth").\<newline>''
      @ ''2) Decide whether we should switch mentors or stay on the current one. Prefer stability unless the user'' @ [CHR 0xE2, CHR 0x80, CHR 0x99] @ ''s intent clearly changed.\<newline>''
      @ ''3) Reply as the selected mentor in a concise, supportive, operator style (no fluff).\<newline>''
      @ ''4) Ask at most ONE clarifying question, only if necessary to proceed.\<newline>''
      @ ''5) Provide 2'' @ [CHR 0xE2, CHR 0x80, CHR 0x93] @ ''5 next actions that the founder can do immediately (this week).\<newline>''
      @ ''6) Update "memory_update" compactly so the next call stays consistent.\<newline>''
      @ ''\<newline>''
      @ ''Output must be valid JSON matching this schema:\<newline>''
      @ ''{\<newline>''
      @ ''  "mentor_track": "string",\<newline>''
      @ ''  "switched_track": boolean,\<newline>''
      @ ''  "reply": "string",\<newline>''
      @ ''  "clarifying_question": "string or null",\<newline>''
      @ ''  "next_actions": ["action1", "action2"],\<newline>''
      @ ''  "memory_update": "string summary of new facts"\<newline>''
      @ ''}\<newline>''\<close>

text \<open>
  The f-string of lines 101--107: \<open>context_block\<close> is its fixed text around the four
  replacement fields, \<open>user_input_context\<close> fills them. The conditional expressions test
  truthiness: an empty
  \<^verbatim>\<open>active_mentor_track\<close> counts as absent, a \<open>FounderProfile\<close> object is always true. A
  \<^verbatim>\<open>memory_context\<close> of \<^verbatim>\<open>None\<close> is formatted as \<^verbatim>\<open>None\<close>.
\<close>

definition context_block :: "string \<Rightarrow> string \<Rightarrow> string \<Rightarrow> string \<Rightarrow> string" where
  "context_block message track profile memory =
     ''\<newline>        INPUT DATA:\<newline>        - User Message: '' @ [CHR 0x22] @ message @ [CHR 0x22]
     @ ''\<newline>        - Active Mentor Track: '' @ track
     @ ''\<newline>        - Founder Profile: '' @ profile
     @ ''\<newline>        - Memory Context: '' @ memory
     @ ''\<newline>        ''"

definition user_input_context :: "UserRequest \<Rightarrow> string" where
  "user_input_context request =
     context_block
       (user_message request)
       (or_else (active_mentor_track request) ''None'')
       (case founder_profile request of Some p \<Rightarrow> model_dump_json p | None \<Rightarrow> ''Unknown'')
       (case memory_context request of Some m \<Rightarrow> m | None \<Rightarrow> ''None'')"

definition completion_kwargs :: "UserRequest \<Rightarrow> chat_kwargs" where
  "completion_kwargs request =
     \<lparr>model = ''gpt-4-turbo'',
      response_format = [(''type'', ''json_object'')],
      messages =
        [\<lparr>role = ''system'', content = SYSTEM_PROMPT_TEMPLATE\<rparr>,
         \<lparr>role = ''user'', content = user_input_context request\<rparr>],
      temperature = Finite (7 / 10)\<rparr>"

text \<open>\<^verbatim>\<open>json.loads(raw_content)\<close>; \<^verbatim>\<open>None\<close> is not text and raises a \<^verbatim>\<open>TypeError\<close>.\<close>

definition loads :: "externals \<Rightarrow> string option \<Rightarrow> exn + json" where
  "loads ex raw_content =
     (case raw_content of
        None \<Rightarrow> Inl (TypeError ''the JSON object must be str, bytes or bytearray, not NoneType'')
      | Some s \<Rightarrow>
          (case json_loads ex s of
             Inl (m, l, c, p) \<Rightarrow> Inl (JSONDecodeError m l c p)
           | Inr data \<Rightarrow> Inr data))"

text \<open>Lines 119--121, after the completion call has returned.\<close>

definition parse_completion :: "externals \<Rightarrow> completion \<Rightarrow> exn + MentorResponse" where
  "parse_completion ex completion =
     (case choices completion of
        [] \<Rightarrow> Inl (IndexError ''list index out of range'')
      | raw_content # _ \<Rightarrow>
          (case loads ex raw_content of
             Inl e \<Rightarrow> Inl e
           | Inr data \<Rightarrow> MentorResponse_init data))"

text \<open>The body of the \<^verbatim>\<open>try\<close> block (lines 101--121).\<close>

definition mentor_assist_try :: "externals \<Rightarrow> UserRequest \<Rightarrow> exn + MentorResponse" where
  "mentor_assist_try ex request =
     (case chat_completions_create ex (completion_kwargs request) of
        Inl e \<Rightarrow> Inl e
      | Inr completion \<Rightarrow> parse_completion ex completion)"

definition mentor_assist :: "externals \<Rightarrow> UserRequest \<Rightarrow> MentorResponse outcome" where
  "mentor_assist ex request =
     (case mentor_assist_try ex request of
        Inr r \<Rightarrow>
          \<lparr>sent = [ChatCompletionsCreate (completion_kwargs request)], stdout = [],
           result = Inr r\<rparr>
      | Inl e \<Rightarrow>
          \<lparr>sent = [ChatCompletionsCreate (completion_kwargs request)],
           stdout = [''Mentor Assist Error: '' @ str_exn e],
           result = Inl (HTTPException 500 (str_exn e))\<rparr>)"

section \<open>The speech-synthesis relay (lines 129--152)\<close>

text \<open>
  The generator \<^verbatim>\<open>iterfile\<close>: it passes on the chunks that are not empty. It runs when the
  response body is sent, after the handler has returned, so the \<^verbatim>\<open>try\<close> block covers the
  call of \<^verbatim>\<open>convert\<close> only.
\<close>

fun iterfile :: "bytes list \<Rightarrow> bytes list" where
  "iterfile [] = []"
| "iterfile (chunk # audio_stream) =
     (if chunk \<noteq> [] then chunk # iterfile audio_stream else iterfile audio_stream)"

text \<open>
  A \<^verbatim>\<open>StreamingResponse\<close>: its status (200 unless given), its media type, the chunks its body
  iterator yields, and the exception that ends the iteration, if one does.
\<close>

record StreamingResponse =
  status :: nat
  media_type :: string
  body :: "bytes list"
  body_failure :: "exn option"

text \<open>The arguments of lines 137--140.\<close>

definition convert_args :: "TTSRequest \<Rightarrow> convert_kwargs" where
  "convert_args request =
     \<lparr>arg_voice_id = voice_id request, arg_model_id = model_id request,
      arg_text = text' request, arg_output_format = output_format request\<rparr>"

definition text_to_speech :: "externals \<Rightarrow> TTSRequest \<Rightarrow> StreamingResponse outcome" where
  "text_to_speech ex request =
     (let kwargs = convert_args request in
      case text_to_speech_convert ex kwargs of
        Inr audio_stream \<Rightarrow>
          \<lparr>sent = [TextToSpeechConvert kwargs], stdout = [],
           result = Inr \<lparr>status = 200, media_type = ''audio/mpeg'',
                         body = iterfile (chunks audio_stream),
                         body_failure = failure audio_stream\<rparr>\<rparr>
      | Inl e \<Rightarrow>
          \<lparr>sent = [TextToSpeechConvert kwargs], stdout = [''TTS Error: '' @ str_exn e],
           result = Inl (HTTPException 500 (''Text-to-speech failed: '' @ str_exn e))\<rparr>)"

section \<open>The transcription relay (lines 154--174)\<close>

text \<open>An upload: its file name, if it has one, and what \<^verbatim>\<open>await file.read()\<close> gives.\<close>

record UploadFile =
  filename :: "string option"
  read :: "exn + bytes"

text \<open>The \<^verbatim>\<open>BytesIO\<close> file of lines 162--163 and the arguments of lines 166--167.\<close>

definition transcription_args :: "UploadFile \<Rightarrow> bytes \<Rightarrow> transcription_kwargs" where
  "transcription_args file audio_bytes =
     \<lparr>transcription_model = ''whisper-1'',
      file_name = or_else (filename file) ''audio.mp3'',
      file_bytes = audio_bytes\<rparr>"

definition speech_to_text :: "externals \<Rightarrow> UploadFile \<Rightarrow> json outcome" where
  "speech_to_text ex file =
     (case read file of
        Inl e \<Rightarrow>
          \<lparr>sent = [], stdout = [''STT Error: '' @ str_exn e],
           result = Inl (HTTPException 500 (''Transcription failed: '' @ str_exn e))\<rparr>
      | Inr audio_bytes \<Rightarrow>
          (let kwargs = transcription_args file audio_bytes in
           case audio_transcriptions_create ex kwargs of
             Inr transcript \<Rightarrow>
               \<lparr>sent = [TranscriptionsCreate kwargs], stdout = [],
                result = Inr (JObj [(''text'', JStr (transcript_text transcript))])\<rparr>
           | Inl e \<Rightarrow>
               \<lparr>sent = [TranscriptionsCreate kwargs], stdout = [''STT Error: '' @ str_exn e],
                result = Inl (HTTPException 500 (''Transcription failed: '' @ str_exn e))\<rparr>))"

section \<open>Mocked services, for concrete runs\<close>

text \<open>
  A mocked \<^verbatim>\<open>json.loads\<close> knows the value of the texts in its table and rejects every other
  text; a mocked world answers every vendor call with the given outcome.
\<close>

definition mock_loads :: "(string \<times> json) list \<Rightarrow> string \<Rightarrow> (string \<times> nat \<times> nat \<times> nat) + json" where
  "mock_loads table s =
     (case map_of table s of Some j \<Rightarrow> Inr j | None \<Rightarrow> Inl (''Expecting value'', 1, 1, 0))"

definition mock ::
  "(exn + completion) \<Rightarrow> (string \<times> json) list \<Rightarrow> (exn + audio_stream) \<Rightarrow> (exn + transcript)
     \<Rightarrow> externals" where
  "mock c table a t =
     \<lparr>chat_completions_create = (\<lambda>_. c), json_loads = mock_loads table,
      text_to_speech_convert = (\<lambda>_. a), audio_transcriptions_create = (\<lambda>_. t)\<rparr>"

definition no_answer :: "exn + 'a" where
  "no_answer = Inl (Exception ''not called'')"

text \<open>A request, and three texts a completion may hold, each with the value it parses to.\<close>

definition sample_request :: UserRequest where
  "sample_request =
     \<lparr>user_message = ''How do I price my product?'', founder_profile = None,
      active_mentor_track = None, memory_context = Some []\<rparr>"

definition plain_text :: string where
  \<open>plain_text = ''{"mentor_track": "Product", "switched_track": true, "reply": "Start from value.", "next_actions": ["Interview five users", "Draft three tiers"], "memory_update": "Pricing is open.", "confidence": 0.9}''\<close>

definition plain_reply :: "(string \<times> json) list" where
  "plain_reply =
     [(''mentor_track'', JStr ''Product''),
      (''switched_track'', JBool True),
      (''reply'', JStr ''Start from value.''),
      (''next_actions'', JArr [JStr ''Interview five users'', JStr ''Draft three tiers'']),
      (''memory_update'', JStr ''Pricing is open.''),
      (''confidence'', JFloat (Finite (9 / 10)))]"





definition completion_with :: "string \<Rightarrow> json \<Rightarrow> externals" where
  "completion_with raw j =
     mock (Inr \<lparr>choices = [Some raw]\<rparr>) [(raw, j)] no_answer no_answer"

definition sample_tts :: TTSRequest where
  "sample_tts =
     \<lparr>text' = ''Hello'', voice_id = Some ''JBFqnCBsd6RMkjVDRZzb'',
      model_id = Some ''eleven_monolingual_v1'', output_format = Some ''mp3_44100_128''\<rparr>"

text \<open>A founder profile, and a request that carries it with a given active track.\<close>

definition fintech_profile :: FounderProfile where
  "fintech_profile =
     \<lparr>industry = Some ''fintech'', stage = None, key_challenges = Some [''hiring'', ''runway'']\<rparr>"


text \<open>
  Three mocked worlds: one where every vendor call raises, one where the completion is not
  JSON, and one where the audio stream raises after its first chunk.
\<close>

definition vendor_down :: externals where
  "vendor_down =
     mock (Inl (Exception ''Connection error.'')) [] (Inl (Exception ''quota exceeded''))
       (Inl (Exception ''Invalid file format.''))"

definition babbling :: externals where
  "babbling = mock (Inr \<lparr>choices = [Some ''Sorry, I cannot help.'']\<rparr>) [] no_answer no_answer"

definition broken_stream :: externals where
  "broken_stream =
     mock no_answer [] (Inr (AudioStream [''ID3''] (Some (Exception ''connection reset''))))
       no_answer"

text \<open>A world whose transcription vendor answers.\<close>

definition listening :: externals where
  "listening = mock no_answer [] no_answer (Inr \<lparr>transcript_text = ''We sell to clinics.''\<rparr>)"

section \<open>Validation: what is taken and what it gives\<close>


lemma located_Inr_iff: "located name x = Inr a \<longleftrightarrow> x = Inr a"
  by (simp add: located_def split: sum.splits)

lemma validate_str_Inr_iff: "validate_str j = Inr s \<longleftrightarrow> j = JStr s"
  by (cases j) auto

lemma validate_optional_str_Inr_iff:
  "validate_optional validate_str j = Inr v \<longleftrightarrow> j = (case v of None \<Rightarrow> JNull | Some s \<Rightarrow> JStr s)"
  by (cases j; cases v) (auto split: sum.splits)

lemma concat_iterfile: "concat (iterfile cs) = concat cs"
  by (induction cs) auto

lemma required_field_Inr_iff:
  "required_field name v data = Inr a \<longleftrightarrow> (\<exists>j. map_of data name = Some j \<and> v j = Inr a)"
  by (auto simp: required_field_def located_Inr_iff split: option.splits)

lemma default_field_Inr_iff:
  "default_field name v d data = Inr a \<longleftrightarrow>
     (case map_of data name of None \<Rightarrow> a = d | Some j \<Rightarrow> v j = Inr a)"
  by (auto simp: default_field_def located_Inr_iff split: option.splits)

lemma apE:
  assumes "ap f x = Inr r"
  obtains g a where "f = Inr g" and "x = Inr a" and "r = g a"
  using assms by (auto simp: ap_def split: sum.splits)

lemma TTSRequest_validate_Inr:
  assumes "TTSRequest_validate data = Inr request"
  shows "\<exists>a b c d. request = \<lparr>text' = a, voice_id = b, model_id = c, output_format = d\<rparr>
      \<and> required_field ''text'' validate_str data = Inr a
      \<and> default_field ''voice_id'' (validate_optional validate_str) (Some ''JBFqnCBsd6RMkjVDRZzb'') data = Inr b
      \<and> default_field ''model_id'' (validate_optional validate_str) (Some ''eleven_monolingual_v1'') data = Inr c
      \<and> default_field ''output_format'' (validate_optional validate_str) (Some ''mp3_44100_128'') data = Inr d"
  using assms unfolding TTSRequest_validate_def
  by (elim apE) (simp, hypsubst, simp)


lemma TTSRequest_validate_fields:
  assumes "TTSRequest_validate data = Inr request"
  shows "map_of data ''text'' = Some (JStr (text' request))"
    and "(case map_of data ''voice_id'' of None \<Rightarrow> voice_id request = Some ''JBFqnCBsd6RMkjVDRZzb''
          | Some j \<Rightarrow> j = (case voice_id request of None \<Rightarrow> JNull | Some s \<Rightarrow> JStr s))"
    and "(case map_of data ''model_id'' of None \<Rightarrow> model_id request = Some ''eleven_monolingual_v1''
          | Some j \<Rightarrow> j = (case model_id request of None \<Rightarrow> JNull | Some s \<Rightarrow> JStr s))"
    and "(case map_of data ''output_format'' of None \<Rightarrow> output_format request = Some ''mp3_44100_128''
          | Some j \<Rightarrow> j = (case output_format request of None \<Rightarrow> JNull | Some s \<Rightarrow> JStr s))"
proof -
  from TTSRequest_validate_Inr [OF assms] obtain a b c d where
    r: "request = \<lparr>text' = a, voice_id = b, model_id = c, output_format = d\<rparr>"
    and a: "required_field ''text'' validate_str data = Inr a"
    and b: "default_field ''voice_id'' (validate_optional validate_str) (Some ''JBFqnCBsd6RMkjVDRZzb'') data = Inr b"
    and c: "default_field ''model_id'' (validate_optional validate_str) (Some ''eleven_monolingual_v1'') data = Inr c"
    and d: "default_field ''output_format'' (validate_optional validate_str) (Some ''mp3_44100_128'') data = Inr d"
    by blast
  from a r show "map_of data ''text'' = Some (JStr (text' request))"
    by (simp add: required_field_Inr_iff validate_str_Inr_iff)
  from b r show "(case map_of data ''voice_id'' of None \<Rightarrow> voice_id request = Some ''JBFqnCBsd6RMkjVDRZzb''
          | Some j \<Rightarrow> j = (case voice_id request of None \<Rightarrow> JNull | Some s \<Rightarrow> JStr s))"
    by (auto simp: default_field_Inr_iff validate_optional_str_Inr_iff split: option.splits)
  from c r show "(case map_of data ''model_id'' of None \<Rightarrow> model_id request = Some ''eleven_monolingual_v1''
          | Some j \<Rightarrow> j = (case model_id request of None \<Rightarrow> JNull | Some s \<Rightarrow> JStr s))"
    by (auto simp: default_field_Inr_iff validate_optional_str_Inr_iff split: option.splits)
  from d r show "(case map_of data ''output_format'' of None \<Rightarrow> output_format request = Some ''mp3_44100_128''
          | Some j \<Rightarrow> j = (case output_format request of None \<Rightarrow> JNull | Some s \<Rightarrow> JStr s))"
    by (auto simp: default_field_Inr_iff validate_optional_str_Inr_iff split: option.splits)
qed

lemma validate_items_str: "validate_items validate_str i (map JStr xs) = Inr xs"
  by (induction xs arbitrary: i) (simp_all add: ap_def located_def)



lemma holds_is_str: "holds is_str v \<longleftrightarrow> (\<exists>s. v = Some (JStr s))"
  by (auto simp: holds_def is_str_def split: option.splits json.splits)

lemma holds_is_bool: "holds is_bool v \<longleftrightarrow> (\<exists>b. v = Some (JBool b))"
  by (auto simp: holds_def is_bool_def split: option.splits json.splits)

lemma list_all_is_str: "list_all is_str js \<longleftrightarrow> (\<exists>xs. js = map JStr xs)"
proof
  show "list_all is_str js \<Longrightarrow> \<exists>xs. js = map JStr xs"
  proof (induction js)
    case Nil
    then show ?case by simp
  next
    case (Cons j js)
    then obtain s xs where "j = JStr s" and "js = map JStr xs"
      by (auto simp: is_str_def split: json.splits)
    then have "j # js = map JStr (s # xs)" by simp
    then show ?case ..
  qed
next
  show "\<exists>xs. js = map JStr xs \<Longrightarrow> list_all is_str js"
    by (auto simp: list_all_iff is_str_def)
qed

lemma holds_is_str_list: "holds is_str_list v \<longleftrightarrow> (\<exists>xs. v = Some (JArr (map JStr xs)))"
  by (auto simp: holds_def is_str_list_def list_all_is_str split: option.splits json.splits)

lemma holds_is_lax_bool: "holds is_lax_bool v \<longleftrightarrow> (\<exists>j b. v = Some j \<and> validate_bool j = Inr b)"
  by (auto simp: holds_def is_lax_bool_def split: option.splits sum.splits)

lemma optional_str_cases:
  "(case v of None \<Rightarrow> True | Some j \<Rightarrow> j = JNull \<or> is_str j) \<longleftrightarrow>
   (v = None \<or> v = Some JNull \<or> (\<exists>s. v = Some (JStr s)))"
  by (auto simp: is_str_def split: option.splits json.splits)

lemma MentorResponse_validate_accepts:
  assumes "MentorResponse_accepts (JObj data)"
  shows "\<exists>r. MentorResponse_validate data = Inr r
     \<and> map_of data ''mentor_track'' = Some (JStr (mentor_track r))
     \<and> map_option validate_bool (map_of data ''switched_track'') = Some (Inr (switched_track r))
     \<and> map_of data ''reply'' = Some (JStr (reply r))
     \<and> (case map_of data ''clarifying_question'' of None \<Rightarrow> JNull | Some j \<Rightarrow> j)
         = (case clarifying_question r of None \<Rightarrow> JNull | Some q \<Rightarrow> JStr q)
     \<and> map_of data ''next_actions'' = Some (JArr (map JStr (next_actions r)))
     \<and> map_of data ''memory_update'' = Some (JStr (memory_update r))"
proof -
  from assms obtain a j b c e f where
    a: "map_of data ''mentor_track'' = Some (JStr a)"
    and b: "map_of data ''switched_track'' = Some j" "validate_bool j = Inr b"
    and c: "map_of data ''reply'' = Some (JStr c)"
    and d: "map_of data ''clarifying_question'' = None \<or> map_of data ''clarifying_question'' = Some JNull
            \<or> (\<exists>s. map_of data ''clarifying_question'' = Some (JStr s))"
    and e: "map_of data ''next_actions'' = Some (JArr (map JStr e))"
    and f: "map_of data ''memory_update'' = Some (JStr f)"
    unfolding MentorResponse_accepts_def json.case holds_is_str holds_is_lax_bool holds_is_str_list
      optional_str_cases
    by blast
  from d obtain q where q: "default_field ''clarifying_question'' (validate_optional validate_str) None data = Inr q"
    and q': "(case map_of data ''clarifying_question'' of None \<Rightarrow> JNull | Some j \<Rightarrow> j)
         = (case q of None \<Rightarrow> JNull | Some q \<Rightarrow> JStr q)"
    by (auto simp: default_field_def located_def)
  have "MentorResponse_validate data =
      Inr \<lparr>mentor_track = a, switched_track = b, reply = c, clarifying_question = q,
           next_actions = e, memory_update = f\<rparr>"
    unfolding MentorResponse_validate_def
    by (simp add: q required_field_def a b c e f located_def ap_def validate_items_str)
  with a b c q' e f show ?thesis by simp
qed


lemma schema_accepts: "MentorResponse_schema data \<Longrightarrow> MentorResponse_accepts (JObj data)"
  by (auto simp: MentorResponse_schema_def MentorResponse_accepts_def holds_is_bool holds_is_lax_bool)

lemma result_mentor_assist:
  "result (mentor_assist ex request) =
     (case mentor_assist_try ex request of
        Inl e \<Rightarrow> Inl (HTTPException 500 (str_exn e)) | Inr r \<Rightarrow> Inr r)"
  by (simp add: mentor_assist_def split: sum.splits)


lemma mentor_assist_try_parsed:
  assumes "chat_completions_create ex (completion_kwargs request) = Inr completion"
      and "choices completion = Some raw # rest"
      and "json_loads ex raw = Inr j"
  shows "mentor_assist_try ex request = MentorResponse_init j"
  using assms by (simp add: mentor_assist_try_def parse_completion_def loads_def)

lemma sent_text_to_speech:
  "sent (text_to_speech ex request) = [TextToSpeechConvert (convert_args request)]"
  by (simp add: text_to_speech_def Let_def split: sum.splits)

lemma str_exn_ValidationError_nonempty: "str_exn (ValidationError title errors) \<noteq> []"
  by simp

lemma str_exn_JSONDecodeError_nonempty: "str_exn (JSONDecodeError m l c p) \<noteq> []"
  by simp


section \<open>The mentor-routing relay: the reply of the completion API\<close>

lemma plain_reply_schema: "MentorResponse_schema plain_reply"
  by (simp add: MentorResponse_schema_def plain_reply_def holds_def is_str_def is_bool_def
      is_str_list_def)

lemma plain_chat: "chat_completions_create (completion_with plain_text (JObj plain_reply))
     (completion_kwargs sample_request) = Inr \<lparr>choices = [Some plain_text]\<rparr>"
  by (simp add: completion_with_def mock_def)

lemma plain_loads: "json_loads (completion_with plain_text (JObj plain_reply)) plain_text = Inr (JObj plain_reply)"
  by (simp add: completion_with_def mock_def mock_loads_def)

lemma plain_validate: "MentorResponse_validate plain_reply =
    Inr \<lparr>mentor_track = ''Product'', switched_track = True, reply = ''Start from value.'',
         clarifying_question = None,
         next_actions = [''Interview five users'', ''Draft three tiers''],
         memory_update = ''Pricing is open.''\<rparr>"
  by (simp add: MentorResponse_validate_def plain_reply_def required_field_def default_field_def
      located_def ap_def)

lemma plain_run: "result (mentor_assist (completion_with plain_text (JObj plain_reply)) sample_request) =
    Inr \<lparr>mentor_track = ''Product'', switched_track = True, reply = ''Start from value.'',
         clarifying_question = None,
         next_actions = [''Interview five users'', ''Draft three tiers''],
         memory_update = ''Pricing is open.''\<rparr>"
  by (simp add: result_mentor_assist mentor_assist_try_parsed [OF plain_chat _ plain_loads] plain_validate)

text \<open>
  C1. When the completion text parses to a JSON object that conforms to the declared
  \<open>MentorResponse\<close> schema, \<^verbatim>\<open>/api/mentor-assist\<close> returns a \<open>MentorResponse\<close> whose six
  fields are the values of that object, unchanged (an absent \<^verbatim>\<open>clarifying_question\<close> reads as
  \<^verbatim>\<open>null\<close>).
\<close>

theorem mentor_assist_pass_through:
  assumes "chat_completions_create ex (completion_kwargs request) = Inr completion"
      and "choices completion = Some raw # rest"
      and "json_loads ex raw = Inr (JObj data)"
      and "MentorResponse_schema data"
  shows "\<exists>r. result (mentor_assist ex request) = Inr r
     \<and> map_of data ''mentor_track'' = Some (JStr (mentor_track r))
     \<and> map_of data ''switched_track'' = Some (JBool (switched_track r))
     \<and> map_of data ''reply'' = Some (JStr (reply r))
     \<and> (case map_of data ''clarifying_question'' of None \<Rightarrow> JNull | Some j \<Rightarrow> j)
         = (case clarifying_question r of None \<Rightarrow> JNull | Some q \<Rightarrow> JStr q)
     \<and> map_of data ''next_actions'' = Some (JArr (map JStr (next_actions r)))
     \<and> map_of data ''memory_update'' = Some (JStr (memory_update r))"
proof -
  from assms(4) obtain b where b: "map_of data ''switched_track'' = Some (JBool b)"
    by (auto simp: MentorResponse_schema_def holds_is_bool)
  from MentorResponse_validate_accepts [OF schema_accepts [OF assms(4)]] obtain r where
    v: "MentorResponse_validate data = Inr r"
    and f: "map_of data ''mentor_track'' = Some (JStr (mentor_track r))"
      "map_option validate_bool (map_of data ''switched_track'') = Some (Inr (switched_track r))"
      "map_of data ''reply'' = Some (JStr (reply r))"
      "(case map_of data ''clarifying_question'' of None \<Rightarrow> JNull | Some j \<Rightarrow> j)
         = (case clarifying_question r of None \<Rightarrow> JNull | Some q \<Rightarrow> JStr q)"
      "map_of data ''next_actions'' = Some (JArr (map JStr (next_actions r)))"
      "map_of data ''memory_update'' = Some (JStr (memory_update r))"
    by (elim exE conjE) (rule that)
  from f(2) b have s: "map_of data ''switched_track'' = Some (JBool (switched_track r))" by auto
  have "result (mentor_assist ex request) = Inr r"
    by (simp add: result_mentor_assist mentor_assist_try_parsed [OF assms(1-3)] v)
  with f(1,3-6) s show ?thesis by (intro exI [of _ r] conjI)
qed

theorem mentor_assist_pass_through_witness:
  "MentorResponse_schema plain_reply
   \<and> (\<exists>r. result (mentor_assist (completion_with plain_text (JObj plain_reply)) sample_request) = Inr r
     \<and> map_of plain_reply ''mentor_track'' = Some (JStr (mentor_track r))
     \<and> map_of plain_reply ''switched_track'' = Some (JBool (switched_track r))
     \<and> map_of plain_reply ''reply'' = Some (JStr (reply r))
     \<and> (case map_of plain_reply ''clarifying_question'' of None \<Rightarrow> JNull | Some j \<Rightarrow> j)
         = (case clarifying_question r of None \<Rightarrow> JNull | Some q \<Rightarrow> JStr q)
     \<and> map_of plain_reply ''next_actions'' = Some (JArr (map JStr (next_actions r)))
     \<and> map_of plain_reply ''memory_update'' = Some (JStr (memory_update r)))"
proof (rule conjI)
  show "MentorResponse_schema plain_reply" by (rule plain_reply_schema)
  have h: "choices \<lparr>choices = [Some plain_text]\<rparr> = Some plain_text # []" by simp
  show "\<exists>r. result (mentor_assist (completion_with plain_text (JObj plain_reply)) sample_request) = Inr r
     \<and> map_of plain_reply ''mentor_track'' = Some (JStr (mentor_track r))
     \<and> map_of plain_reply ''switched_track'' = Some (JBool (switched_track r))
     \<and> map_of plain_reply ''reply'' = Some (JStr (reply r))
     \<and> (case map_of plain_reply ''clarifying_question'' of None \<Rightarrow> JNull | Some j \<Rightarrow> j)
         = (case clarifying_question r of None \<Rightarrow> JNull | Some q \<Rightarrow> JStr q)
     \<and> map_of plain_reply ''next_actions'' = Some (JArr (map JStr (next_actions r)))
     \<and> map_of plain_reply ''memory_update'' = Some (JStr (memory_update r))"
    by (rule mentor_assist_pass_through [OF plain_chat h plain_loads plain_reply_schema])
qed

text \<open>
  C10. For a completion object with all schema fields and any further keys, the handler returns
  its model (which the framework answers with status 200): the response written from it is the
  object cut down to the six schema fields, each with the object's own value, so every other
  key is dropped; and an absent \<^verbatim>\<open>clarifying_question\<close> comes back as \<^verbatim>\<open>null\<close>.
\<close>

theorem extra_fields_are_dropped:
  assumes "chat_completions_create ex (completion_kwargs request) = Inr completion"
      and "choices completion = Some raw # rest"
      and "json_loads ex raw = Inr (JObj data)"
      and "MentorResponse_schema data"
  shows "\<exists>r. result (mentor_assist ex request) = Inr r
     \<and> MentorResponse_dump r =
         map (\<lambda>k. (k, case map_of data k of None \<Rightarrow> JNull | Some j \<Rightarrow> j))
           [''mentor_track'', ''switched_track'', ''reply'', ''clarifying_question'',
            ''next_actions'', ''memory_update'']
     \<and> (\<forall>k. k \<notin> set [''mentor_track'', ''switched_track'', ''reply'', ''clarifying_question'',
                       ''next_actions'', ''memory_update'']
            \<longrightarrow> map_of (MentorResponse_dump r) k = None)
     \<and> (map_of data ''clarifying_question'' = None \<longrightarrow>
          clarifying_question r = None
          \<and> map_of (MentorResponse_dump r) ''clarifying_question'' = Some JNull)"
proof -
  from assms(4) obtain b where b: "map_of data ''switched_track'' = Some (JBool b)"
    by (auto simp: MentorResponse_schema_def holds_is_bool)
  from MentorResponse_validate_accepts [OF schema_accepts [OF assms(4)]] obtain r where
    v: "MentorResponse_validate data = Inr r"
    and f: "map_of data ''mentor_track'' = Some (JStr (mentor_track r))"
      "map_option validate_bool (map_of data ''switched_track'') = Some (Inr (switched_track r))"
      "map_of data ''reply'' = Some (JStr (reply r))"
      "(case map_of data ''clarifying_question'' of None \<Rightarrow> JNull | Some j \<Rightarrow> j)
         = (case clarifying_question r of None \<Rightarrow> JNull | Some q \<Rightarrow> JStr q)"
      "map_of data ''next_actions'' = Some (JArr (map JStr (next_actions r)))"
      "map_of data ''memory_update'' = Some (JStr (memory_update r))"
    by (elim exE conjE) (rule that)
  from f(2) b have s: "map_of data ''switched_track'' = Some (JBool (switched_track r))" by auto
  have r: "result (mentor_assist ex request) = Inr r"
    by (simp add: result_mentor_assist mentor_assist_try_parsed [OF assms(1-3)] v)
  have d: "MentorResponse_dump r =
         map (\<lambda>k. (k, case map_of data k of None \<Rightarrow> JNull | Some j \<Rightarrow> j))
           [''mentor_track'', ''switched_track'', ''reply'', ''clarifying_question'',
            ''next_actions'', ''memory_update'']"
    by (simp add: MentorResponse_dump_def f(1,3-6) s)
  have x: "\<forall>k. k \<notin> set [''mentor_track'', ''switched_track'', ''reply'', ''clarifying_question'',
                       ''next_actions'', ''memory_update'']
            \<longrightarrow> map_of (MentorResponse_dump r) k = None"
    by (simp add: MentorResponse_dump_def)
  have q: "map_of data ''clarifying_question'' = None \<longrightarrow>
          clarifying_question r = None
          \<and> map_of (MentorResponse_dump r) ''clarifying_question'' = Some JNull"
    using f(4) by (auto simp: MentorResponse_dump_def split: option.splits)
  from r d x q show ?thesis by (intro exI [of _ r] conjI)
qed

theorem extra_fields_are_dropped_witness:
  "MentorResponse_schema plain_reply
   \<and> map_of plain_reply ''confidence'' = Some (JFloat (Finite (9 / 10)))
   \<and> map_of plain_reply ''clarifying_question'' = None
   \<and> (\<exists>r. result (mentor_assist (completion_with plain_text (JObj plain_reply)) sample_request) = Inr r
        \<and> MentorResponse_dump r =
            map (\<lambda>k. (k, case map_of plain_reply k of None \<Rightarrow> JNull | Some j \<Rightarrow> j))
              [''mentor_track'', ''switched_track'', ''reply'', ''clarifying_question'',
               ''next_actions'', ''memory_update'']
        \<and> map_of (MentorResponse_dump r) ''confidence'' = None
        \<and> clarifying_question r = None
        \<and> map_of (MentorResponse_dump r) ''clarifying_question'' = Some JNull)"
proof -
  have h: "choices \<lparr>choices = [Some plain_text]\<rparr> = Some plain_text # []" by simp
  have c: "map_of plain_reply ''confidence'' = Some (JFloat (Finite (9 / 10)))"
    by (simp add: plain_reply_def)
  have n: "map_of plain_reply ''clarifying_question'' = None"
    by (simp add: plain_reply_def)
  have k: "''confidence'' \<notin> set [''mentor_track'', ''switched_track'', ''reply'', ''clarifying_question'',
                       ''next_actions'', ''memory_update'']"
    by simp
  from extra_fields_are_dropped [OF plain_chat h plain_loads plain_reply_schema] obtain r where
    r: "result (mentor_assist (completion_with plain_text (JObj plain_reply)) sample_request) = Inr r"
    and d: "MentorResponse_dump r =
            map (\<lambda>k. (k, case map_of plain_reply k of None \<Rightarrow> JNull | Some j \<Rightarrow> j))
              [''mentor_track'', ''switched_track'', ''reply'', ''clarifying_question'',
               ''next_actions'', ''memory_update'']"
    and x: "\<forall>k. k \<notin> set [''mentor_track'', ''switched_track'', ''reply'', ''clarifying_question'',
                       ''next_actions'', ''memory_update'']
            \<longrightarrow> map_of (MentorResponse_dump r) k = None"
    and i: "map_of plain_reply ''clarifying_question'' = None \<longrightarrow>
          clarifying_question r = None
          \<and> map_of (MentorResponse_dump r) ''clarifying_question'' = Some JNull"
    by (elim exE conjE) (rule that)
  from x [THEN spec, THEN mp, OF k] have e: "map_of (MentorResponse_dump r) ''confidence'' = None" .
  from i [THEN mp, OF n] have q1: "clarifying_question r = None"
    and q2: "map_of (MentorResponse_dump r) ''clarifying_question'' = Some JNull"
    by (rule conjunct1, rule conjunct2)
  from r d e q1 q2
  have "\<exists>r. result (mentor_assist (completion_with plain_text (JObj plain_reply)) sample_request) = Inr r
        \<and> MentorResponse_dump r =
            map (\<lambda>k. (k, case map_of plain_reply k of None \<Rightarrow> JNull | Some j \<Rightarrow> j))
              [''mentor_track'', ''switched_track'', ''reply'', ''clarifying_question'',
               ''next_actions'', ''memory_update'']
        \<and> map_of (MentorResponse_dump r) ''confidence'' = None
        \<and> clarifying_question r = None
        \<and> map_of (MentorResponse_dump r) ''clarifying_question'' = Some JNull"
    by (intro exI [of _ r] conjI)
  with plain_reply_schema c n show ?thesis by (intro conjI)
qed

text \<open>What a lax \<^verbatim>\<open>bool\<close> field takes, and the boolean it gives.\<close>

lemma str_as_bool_cases:
  "str_as_bool s = Some b \<longleftrightarrow>
     (\<not> b \<and> (s = ''0'' \<or> map ascii_lower s \<in> {''f'', ''n'', ''no'', ''off'', ''false''}))
     \<or> (b \<and> (s = ''1'' \<or> map ascii_lower s \<in> {''t'', ''y'', ''on'', ''yes'', ''true''}))"
  by (auto simp: str_as_bool_def Let_def ascii_lower_def)

lemma int_as_bool_cases: "int_as_bool i = Some b \<longleftrightarrow> (i = 0 \<and> \<not> b) \<or> (i = 1 \<and> b)"
  by (auto simp: int_as_bool_def)

lemma validate_bool_Inr_iff:
  "validate_bool j = Inr b \<longleftrightarrow>
     j = JBool b
     \<or> (j = JInt 0 \<and> \<not> b) \<or> (j = JInt 1 \<and> b)
     \<or> (j = JFloat (Finite 0) \<and> \<not> b) \<or> (j = JFloat (Finite 1) \<and> b)
     \<or> (\<exists>s. j = JStr s \<and> str_as_bool s = Some b)"
proof (cases j)
  case (JInt i)
  then show ?thesis
    by (auto simp: int_as_bool_def bool_parsing_error_def bool_type_error_def)
next
  case (JFloat x)
  show ?thesis
  proof (cases x)
    case (Finite q)
    have "q = of_int \<lfloor>q\<rfloor> \<and> \<lfloor>q\<rfloor> = 0 \<longleftrightarrow> q = 0" by auto
    moreover have "q = of_int \<lfloor>q\<rfloor> \<and> \<lfloor>q\<rfloor> = 1 \<longleftrightarrow> q = 1" by auto
    ultimately show ?thesis using JFloat Finite
      by (auto simp: int_as_bool_def bool_parsing_error_def bool_type_error_def)
  qed (use JFloat in \<open>simp_all add: bool_type_error_def\<close>)
qed (auto simp: bool_parsing_error_def bool_type_error_def split: option.splits)











section \<open>The speech-synthesis relay: parameters and stream\<close>

lemma result_text_to_speech:
  "result (text_to_speech ex request) =
     (case text_to_speech_convert ex (convert_args request) of
        Inl e \<Rightarrow> Inl (HTTPException 500 (''Text-to-speech failed: '' @ str_exn e))
      | Inr audio_stream \<Rightarrow>
          Inr \<lparr>status = 200, media_type = ''audio/mpeg'',
               body = iterfile (chunks audio_stream), body_failure = failure audio_stream\<rparr>)"
  by (simp add: text_to_speech_def Let_def split: sum.splits)

text \<open>
  C5. Whatever chunks the vendor's stream yields, the chunks that \<^verbatim>\<open>/api/voice/speak\<close> sends
  concatenate to the same bytes, in the same order: only empty chunks are left out.
\<close>

theorem speak_forwards_every_byte:
  assumes "text_to_speech_convert ex (convert_args request) = Inr (AudioStream cs f)"
  shows "\<exists>response. result (text_to_speech ex request) = Inr response
     \<and> status response = 200 \<and> media_type response = ''audio/mpeg''
     \<and> concat (body response) = concat cs
     \<and> body_failure response = f"
  using assms by (simp add: result_text_to_speech concat_iterfile)

theorem speak_forwards_every_byte_witness:
  "text_to_speech_convert
      (mock no_answer [] (Inr (AudioStream [''ID3'', [], ''ab'', ''c''] None)) no_answer)
      (convert_args sample_tts) = Inr (AudioStream [''ID3'', [], ''ab'', ''c''] None)
   \<and> (\<exists>response.
        result (text_to_speech
          (mock no_answer [] (Inr (AudioStream [''ID3'', [], ''ab'', ''c''] None)) no_answer)
          sample_tts) = Inr response
        \<and> status response = 200 \<and> media_type response = ''audio/mpeg''
        \<and> concat (body response) = concat [''ID3'', [], ''ab'', ''c'']
        \<and> body_failure response = None)"
proof -
  have h: "text_to_speech_convert
      (mock no_answer [] (Inr (AudioStream [''ID3'', [], ''ab'', ''c''] None)) no_answer)
      (convert_args sample_tts) = Inr (AudioStream [''ID3'', [], ''ab'', ''c''] None)"
    by (simp add: mock_def)
  from h speak_forwards_every_byte [OF h] show ?thesis by (rule conjI)
qed

text \<open>
  C4. For a request body that validates, each of \<^verbatim>\<open>voice_id\<close>, \<^verbatim>\<open>model_id\<close> and
  \<^verbatim>\<open>output_format\<close> that the body omits reaches the vendor as its fixed default.
\<close>

theorem omitted_parameters_take_defaults:
  assumes "TTSRequest_validate data = Inr request"
  shows "sent (text_to_speech ex request) = [TextToSpeechConvert (convert_args request)]
     \<and> map_of data ''text'' = Some (JStr (arg_text (convert_args request)))
     \<and> (map_of data ''voice_id'' = None \<longrightarrow>
          arg_voice_id (convert_args request) = Some ''JBFqnCBsd6RMkjVDRZzb'')
     \<and> (map_of data ''model_id'' = None \<longrightarrow>
          arg_model_id (convert_args request) = Some ''eleven_monolingual_v1'')
     \<and> (map_of data ''output_format'' = None \<longrightarrow>
          arg_output_format (convert_args request) = Some ''mp3_44100_128'')"
  using TTSRequest_validate_fields [OF assms]
  by (auto simp: sent_text_to_speech convert_args_def)

theorem omitted_parameters_take_defaults_witness:
  "TTSRequest_validate [(''text'', JStr ''Hello'')] = Inr sample_tts
   \<and> map_of [(''text'', JStr ''Hello'')] ''voice_id'' = None
   \<and> map_of [(''text'', JStr ''Hello'')] ''model_id'' = None
   \<and> map_of [(''text'', JStr ''Hello'')] ''output_format'' = None
   \<and> sent (text_to_speech (mock no_answer [] (Inr (AudioStream [] None)) no_answer) sample_tts) =
       [TextToSpeechConvert
          \<lparr>arg_voice_id = Some ''JBFqnCBsd6RMkjVDRZzb'',
           arg_model_id = Some ''eleven_monolingual_v1'',
           arg_text = ''Hello'',
           arg_output_format = Some ''mp3_44100_128''\<rparr>]"
proof -
  have v: "TTSRequest_validate [(''text'', JStr ''Hello'')] = Inr sample_tts"
    by (simp add: TTSRequest_validate_def sample_tts_def required_field_def default_field_def
        located_def ap_def)
  from omitted_parameters_take_defaults [OF v] v show ?thesis
    by (simp add: convert_args_def sample_tts_def)
qed

text \<open>
  C9. For a request body that validates, an explicit \<^verbatim>\<open>null\<close> for \<^verbatim>\<open>voice_id\<close>, \<^verbatim>\<open>model_id\<close>
  or \<^verbatim>\<open>output_format\<close> reaches the vendor as \<^verbatim>\<open>None\<close>, and a key that is present reaches it
  with the body's own value: a default is used for an absent key only.
\<close>

theorem explicit_null_is_forwarded:
  assumes "TTSRequest_validate data = Inr request"
  shows "sent (text_to_speech ex request) = [TextToSpeechConvert (convert_args request)]
     \<and> (map_of data ''voice_id'' = Some JNull \<longrightarrow> arg_voice_id (convert_args request) = None)
     \<and> (map_of data ''model_id'' = Some JNull \<longrightarrow> arg_model_id (convert_args request) = None)
     \<and> (map_of data ''output_format'' = Some JNull \<longrightarrow>
          arg_output_format (convert_args request) = None)
     \<and> (\<forall>j. map_of data ''voice_id'' = Some j \<longrightarrow>
          j = (case arg_voice_id (convert_args request) of None \<Rightarrow> JNull | Some s \<Rightarrow> JStr s))
     \<and> (\<forall>j. map_of data ''model_id'' = Some j \<longrightarrow>
          j = (case arg_model_id (convert_args request) of None \<Rightarrow> JNull | Some s \<Rightarrow> JStr s))
     \<and> (\<forall>j. map_of data ''output_format'' = Some j \<longrightarrow>
          j = (case arg_output_format (convert_args request) of None \<Rightarrow> JNull | Some s \<Rightarrow> JStr s))"
  using TTSRequest_validate_fields [OF assms]
  by (auto simp: sent_text_to_speech convert_args_def split: option.splits)

theorem explicit_null_is_forwarded_witness:
  "TTSRequest_validate
      [(''text'', JStr ''Hello''), (''voice_id'', JNull), (''model_id'', JNull),
       (''output_format'', JNull)] =
      Inr \<lparr>text' = ''Hello'', voice_id = None, model_id = None, output_format = None\<rparr>
   \<and> sent (text_to_speech (mock no_answer [] (Inr (AudioStream [] None)) no_answer)
        \<lparr>text' = ''Hello'', voice_id = None, model_id = None, output_format = None\<rparr>) =
       [TextToSpeechConvert
          \<lparr>arg_voice_id = None, arg_model_id = None, arg_text = ''Hello'',
           arg_output_format = None\<rparr>]"
proof -
  have v: "TTSRequest_validate
      [(''text'', JStr ''Hello''), (''voice_id'', JNull), (''model_id'', JNull),
       (''output_format'', JNull)] =
      Inr \<lparr>text' = ''Hello'', voice_id = None, model_id = None, output_format = None\<rparr>"
    by (simp add: TTSRequest_validate_def required_field_def default_field_def located_def ap_def)
  from explicit_null_is_forwarded [OF v] v show ?thesis
    by (simp add: convert_args_def)
qed

section \<open>The transcription relay\<close>

lemma result_speech_to_text:
  "result (speech_to_text ex file) =
     (case read file of
        Inl e \<Rightarrow> Inl (HTTPException 500 (''Transcription failed: '' @ str_exn e))
      | Inr audio_bytes \<Rightarrow>
          (case audio_transcriptions_create ex (transcription_args file audio_bytes) of
             Inl e \<Rightarrow> Inl (HTTPException 500 (''Transcription failed: '' @ str_exn e))
           | Inr transcript \<Rightarrow> Inr (JObj [(''text'', JStr (transcript_text transcript))])))"
  by (simp add: speech_to_text_def Let_def split: sum.splits)

lemma sent_speech_to_text:
  "read file = Inr audio_bytes \<Longrightarrow>
   sent (speech_to_text ex file) = [TranscriptionsCreate (transcription_args file audio_bytes)]"
  by (simp add: speech_to_text_def Let_def split: sum.splits)

text \<open>
  C7. An upload without a file name (none, or the empty name) is sent to the transcription
  vendor, with its bytes, under the name \<^verbatim>\<open>audio.mp3\<close>, and an upload with a name under that
  name; and whatever transcript the vendor returns for that call, the endpoint returns the
  object whose one key \<^verbatim>\<open>text\<close> holds it, unchanged.
\<close>

theorem transcribe_names_and_returns:
  assumes "read file = Inr audio_bytes"
  shows "(filename file = None \<or> filename file = Some [] \<longrightarrow>
            sent (speech_to_text ex file) =
              [TranscriptionsCreate
                 \<lparr>transcription_model = ''whisper-1'', file_name = ''audio.mp3'',
                  file_bytes = audio_bytes\<rparr>])
     \<and> (\<forall>name. filename file = Some name \<and> name \<noteq> [] \<longrightarrow>
            sent (speech_to_text ex file) =
              [TranscriptionsCreate
                 \<lparr>transcription_model = ''whisper-1'', file_name = name,
                  file_bytes = audio_bytes\<rparr>])
     \<and> (\<forall>kwargs t. sent (speech_to_text ex file) = [TranscriptionsCreate kwargs]
              \<and> audio_transcriptions_create ex kwargs = Inr t \<longrightarrow>
            result (speech_to_text ex file) = Inr (JObj [(''text'', JStr (transcript_text t))]))"
  using assms
  by (auto simp: sent_speech_to_text result_speech_to_text transcription_args_def or_else_def)

theorem transcribe_names_and_returns_witness:
  "sent (speech_to_text listening \<lparr>filename = None, read = Inr ''RIFF''\<rparr>) =
     [TranscriptionsCreate
        \<lparr>transcription_model = ''whisper-1'', file_name = ''audio.mp3'', file_bytes = ''RIFF''\<rparr>]
   \<and> sent (speech_to_text listening \<lparr>filename = Some [], read = Inr ''RIFF''\<rparr>) =
     [TranscriptionsCreate
        \<lparr>transcription_model = ''whisper-1'', file_name = ''audio.mp3'', file_bytes = ''RIFF''\<rparr>]
   \<and> sent (speech_to_text listening \<lparr>filename = Some ''pitch.wav'', read = Inr ''RIFF''\<rparr>) =
     [TranscriptionsCreate
        \<lparr>transcription_model = ''whisper-1'', file_name = ''pitch.wav'', file_bytes = ''RIFF''\<rparr>]
   \<and> result (speech_to_text listening \<lparr>filename = None, read = Inr ''RIFF''\<rparr>) =
     Inr (JObj [(''text'', JStr ''We sell to clinics.'')])"
proof -
  have r1: "read \<lparr>filename = None, read = Inr ''RIFF''\<rparr> = Inr ''RIFF''" by simp
  have r2: "read \<lparr>filename = Some [], read = Inr ''RIFF''\<rparr> = Inr ''RIFF''" by simp
  have r3: "read \<lparr>filename = Some ''pitch.wav'', read = Inr ''RIFF''\<rparr> = Inr ''RIFF''" by simp
  have n1: "filename \<lparr>filename = None, read = Inr ''RIFF''\<rparr> = None
      \<or> filename \<lparr>filename = None, read = Inr ''RIFF''\<rparr> = Some []"
    by simp
  have n2: "filename \<lparr>filename = Some [], read = Inr ''RIFF''\<rparr> = None
      \<or> filename \<lparr>filename = Some [], read = Inr ''RIFF''\<rparr> = Some []"
    by simp
  have n3: "filename \<lparr>filename = Some ''pitch.wav'', read = Inr ''RIFF''\<rparr> = Some ''pitch.wav''
      \<and> ''pitch.wav'' \<noteq> []"
    by simp
  note w1 = transcribe_names_and_returns [OF r1, of listening]
  note w2 = transcribe_names_and_returns [OF r2, of listening]
  note w3 = transcribe_names_and_returns [OF r3, of listening]
  note s1 = w1 [THEN conjunct1, THEN mp, OF n1]
  have t: "sent (speech_to_text listening \<lparr>filename = None, read = Inr ''RIFF''\<rparr>) =
        [TranscriptionsCreate
          \<lparr>transcription_model = ''whisper-1'', file_name = ''audio.mp3'', file_bytes = ''RIFF''\<rparr>]
      \<and> audio_transcriptions_create listening
          \<lparr>transcription_model = ''whisper-1'', file_name = ''audio.mp3'', file_bytes = ''RIFF''\<rparr> =
        Inr \<lparr>transcript_text = ''We sell to clinics.''\<rparr>"
    using s1 by (simp add: listening_def mock_def)
  from s1 w2 [THEN conjunct1, THEN mp, OF n2]
    w3 [THEN conjunct2, THEN conjunct1, THEN spec, THEN mp, OF n3]
    w1 [THEN conjunct2, THEN conjunct2, THEN spec, THEN spec, THEN mp, OF t]
  show ?thesis by simp
qed

section \<open>Startup\<close>

text \<open>
  C8, as amended. If either key is unset or empty in the environment, the module raises at
  line 21 or 23, before the application and its routes exist; if both are set and not empty,
  the check passes and the clients are made with them.
\<close>

theorem startup_needs_both_keys:
  "((environ ''OPENAI_API_KEY'' = None \<or> environ ''OPENAI_API_KEY'' = Some []
      \<or> environ ''ELEVENLABS_API_KEY'' = None \<or> environ ''ELEVENLABS_API_KEY'' = Some [])
     \<longrightarrow> (\<exists>m. startup environ = Inl (ValueError m)))
   \<and> (\<forall>a b. environ ''OPENAI_API_KEY'' = Some a \<and> a \<noteq> []
          \<and> environ ''ELEVENLABS_API_KEY'' = Some b \<and> b \<noteq> []
     \<longrightarrow> startup environ = Inr \<lparr>openai_api_key = Some a, elevenlabs_api_key = Some b\<rparr>)"
  by (auto simp: startup_def truthy_def)

theorem startup_needs_both_keys_witness:
  "(\<exists>m. startup (map_of [(''OPENAI_API_KEY'', ''sk-1'')]) = Inl (ValueError m))
   \<and> startup (map_of [(''OPENAI_API_KEY'', ''sk-1''), (''ELEVENLABS_API_KEY'', ''el-2'')]) =
       Inr \<lparr>openai_api_key = Some ''sk-1'', elevenlabs_api_key = Some ''el-2''\<rparr>"
proof (rule conjI)
  have "map_of [(''OPENAI_API_KEY'', ''sk-1'')] ''OPENAI_API_KEY'' = None
      \<or> map_of [(''OPENAI_API_KEY'', ''sk-1'')] ''OPENAI_API_KEY'' = Some []
      \<or> map_of [(''OPENAI_API_KEY'', ''sk-1'')] ''ELEVENLABS_API_KEY'' = None
      \<or> map_of [(''OPENAI_API_KEY'', ''sk-1'')] ''ELEVENLABS_API_KEY'' = Some []"
    by simp
  from startup_needs_both_keys [THEN conjunct1, THEN mp, OF this]
  show "\<exists>m. startup (map_of [(''OPENAI_API_KEY'', ''sk-1'')]) = Inl (ValueError m)" .
next
  have "map_of [(''OPENAI_API_KEY'', ''sk-1''), (''ELEVENLABS_API_KEY'', ''el-2'')] ''OPENAI_API_KEY'' = Some ''sk-1''
      \<and> ''sk-1'' \<noteq> []
      \<and> map_of [(''OPENAI_API_KEY'', ''sk-1''), (''ELEVENLABS_API_KEY'', ''el-2'')] ''ELEVENLABS_API_KEY'' = Some ''el-2''
      \<and> ''el-2'' \<noteq> []"
    by simp
  from startup_needs_both_keys [THEN conjunct2, THEN spec, THEN spec, THEN mp, OF this]
  show "startup (map_of [(''OPENAI_API_KEY'', ''sk-1''), (''ELEVENLABS_API_KEY'', ''el-2'')]) =
       Inr \<lparr>openai_api_key = Some ''sk-1'', elevenlabs_api_key = Some ''el-2''\<rparr>" .
qed

text \<open>
  The claim as first stated fails: with both variables set, one of them to the empty string,
  the module raises.
\<close>

theorem empty_key_counterexample:
  "map_of [(''OPENAI_API_KEY'', []), (''ELEVENLABS_API_KEY'', ''el-2'')] ''OPENAI_API_KEY'' = Some []
   \<and> map_of [(''OPENAI_API_KEY'', []), (''ELEVENLABS_API_KEY'', ''el-2'')] ''ELEVENLABS_API_KEY'' = Some ''el-2''
   \<and> startup (map_of [(''OPENAI_API_KEY'', []), (''ELEVENLABS_API_KEY'', ''el-2'')]) =
       Inl (ValueError ''OPENAI_API_KEY is missing in .env'')"
  by (simp add: startup_def truthy_def)

section \<open>The mentor-routing relay: the context sent\<close>

lemma fintech_json:
  \<open>model_dump_json fintech_profile =
     ''{"industry":"fintech","stage":null,"key_challenges":["hiring","runway"]}''\<close>
  by (simp add: model_dump_json_def fintech_profile_def dump_optional_def dump_str_def dump_list_def
      json_escape_def)




section \<open>Failures\<close>

lemma show_nat_0: "show_nat 0 = ''0''"
  by (simp add: show_nat.simps)

lemma show_nat_1: "show_nat (Suc 0) = ''1''"
  by (simp add: show_nat.simps)

text \<open>
  C3, as amended. Every exception raised inside a handler's \<^verbatim>\<open>try\<close> block becomes a 500
  whose detail holds the exception's text: as it is for \<^verbatim>\<open>/api/mentor-assist\<close> (a failed
  completion call, or a failure of lines 119--121), after \<^verbatim>\<open>Text-to-speech failed: \<close> for
  \<^verbatim>\<open>/api/voice/speak\<close> (a failed \<^verbatim>\<open>convert\<close> call), after \<^verbatim>\<open>Transcription failed: \<close> for
  \<^verbatim>\<open>/api/voice/transcribe\<close> (a failed read of the upload, or a failed transcription call).
\<close>

theorem failures_in_try_become_500:
  "(\<forall>(ex :: externals) request e.
      chat_completions_create ex (completion_kwargs request) = Inl e \<longrightarrow>
      result (mentor_assist ex request) = Inl (HTTPException 500 (str_exn e)))
   \<and> (\<forall>(ex :: externals) request completion e.
      chat_completions_create ex (completion_kwargs request) = Inr completion
        \<and> parse_completion ex completion = Inl e \<longrightarrow>
      result (mentor_assist ex request) = Inl (HTTPException 500 (str_exn e)))
   \<and> (\<forall>(ex :: externals) request e.
      text_to_speech_convert ex (convert_args request) = Inl e \<longrightarrow>
      result (text_to_speech ex request) =
        Inl (HTTPException 500 (''Text-to-speech failed: '' @ str_exn e)))
   \<and> (\<forall>(ex :: externals) file e.
      read file = Inl e \<longrightarrow>
      result (speech_to_text ex file) =
        Inl (HTTPException 500 (''Transcription failed: '' @ str_exn e)))
   \<and> (\<forall>(ex :: externals) file audio_bytes e.
      read file = Inr audio_bytes
        \<and> audio_transcriptions_create ex (transcription_args file audio_bytes) = Inl e \<longrightarrow>
      result (speech_to_text ex file) =
        Inl (HTTPException 500 (''Transcription failed: '' @ str_exn e)))"
proof (intro conjI allI impI)
  fix ex :: externals and request e
  assume "chat_completions_create ex (completion_kwargs request) = Inl e"
  then show "result (mentor_assist ex request) = Inl (HTTPException 500 (str_exn e))"
    by (simp add: result_mentor_assist mentor_assist_try_def)
next
  fix ex :: externals and request completion e
  assume "chat_completions_create ex (completion_kwargs request) = Inr completion
        \<and> parse_completion ex completion = Inl e"
  then show "result (mentor_assist ex request) = Inl (HTTPException 500 (str_exn e))"
    by (simp add: result_mentor_assist mentor_assist_try_def)
next
  fix ex :: externals and request e
  assume "text_to_speech_convert ex (convert_args request) = Inl e"
  then show "result (text_to_speech ex request) =
        Inl (HTTPException 500 (''Text-to-speech failed: '' @ str_exn e))"
    by (simp add: result_text_to_speech)
next
  fix ex :: externals and upload :: UploadFile and e
  assume "read upload = Inl e"
  then show "result (speech_to_text ex upload) =
        Inl (HTTPException 500 (''Transcription failed: '' @ str_exn e))"
    by (simp add: result_speech_to_text)
next
  fix ex :: externals and upload :: UploadFile and audio_bytes e
  assume "read upload = Inr audio_bytes
        \<and> audio_transcriptions_create ex (transcription_args upload audio_bytes) = Inl e"
  then show "result (speech_to_text ex upload) =
        Inl (HTTPException 500 (''Transcription failed: '' @ str_exn e))"
    by (simp add: result_speech_to_text)
qed

theorem failures_in_try_become_500_witness:
  "result (mentor_assist vendor_down sample_request) = Inl (HTTPException 500 ''Connection error.'')
   \<and> result (mentor_assist babbling sample_request) =
       Inl (HTTPException 500 ''Expecting value: line 1 column 1 (char 0)'')
   \<and> result (text_to_speech vendor_down sample_tts) =
       Inl (HTTPException 500 ''Text-to-speech failed: quota exceeded'')
   \<and> result (speech_to_text vendor_down \<lparr>filename = Some ''a.wav'', read = Inl (Exception ''closed file'')\<rparr>) =
       Inl (HTTPException 500 ''Transcription failed: closed file'')
   \<and> result (speech_to_text vendor_down \<lparr>filename = Some ''a.wav'', read = Inr ''RIFF''\<rparr>) =
       Inl (HTTPException 500 ''Transcription failed: Invalid file format.'')"
proof -
  note t = failures_in_try_become_500
  have 1: "chat_completions_create vendor_down (completion_kwargs sample_request) =
      Inl (Exception ''Connection error.'')"
    by (simp add: vendor_down_def mock_def)
  have 2: "chat_completions_create babbling (completion_kwargs sample_request) =
        Inr \<lparr>choices = [Some ''Sorry, I cannot help.'']\<rparr>
      \<and> parse_completion babbling \<lparr>choices = [Some ''Sorry, I cannot help.'']\<rparr> =
        Inl (JSONDecodeError ''Expecting value'' 1 1 0)"
    by (simp add: babbling_def mock_def mock_loads_def parse_completion_def loads_def)
  have 3: "text_to_speech_convert vendor_down (convert_args sample_tts) = Inl (Exception ''quota exceeded'')"
    by (simp add: vendor_down_def mock_def)
  have 4: "read \<lparr>filename = Some ''a.wav'', read = Inl (Exception ''closed file'')\<rparr> =
      Inl (Exception ''closed file'')"
    by simp
  have 5: "read \<lparr>filename = Some ''a.wav'', read = Inr ''RIFF''\<rparr> = Inr ''RIFF''
      \<and> audio_transcriptions_create vendor_down
          (transcription_args \<lparr>filename = Some ''a.wav'', read = Inr ''RIFF''\<rparr> ''RIFF'') =
        Inl (Exception ''Invalid file format.'')"
    by (simp add: vendor_down_def mock_def)
  from t [THEN conjunct1, THEN spec, THEN spec, THEN spec, THEN mp, OF 1]
    t [THEN conjunct2, THEN conjunct1, THEN spec, THEN spec, THEN spec, THEN spec, THEN mp, OF 2]
    t [THEN conjunct2, THEN conjunct2, THEN conjunct1, THEN spec, THEN spec, THEN spec, THEN mp, OF 3]
    t [THEN conjunct2, THEN conjunct2, THEN conjunct2, THEN conjunct1, THEN spec, THEN spec, THEN spec,
        THEN mp, OF 4, of vendor_down]
    t [THEN conjunct2, THEN conjunct2, THEN conjunct2, THEN conjunct2, THEN spec, THEN spec, THEN spec,
        THEN spec, THEN mp, OF 5]
  show ?thesis by (simp add: show_nat_0 show_nat_1)
qed

text \<open>
  The claim as first stated fails: when the vendor's audio stream raises while the body is
  sent, the handler has already returned its \<^verbatim>\<open>StreamingResponse\<close> with status 200.
\<close>

theorem stream_failure_counterexample:
  "text_to_speech_convert broken_stream (convert_args sample_tts) =
     Inr (AudioStream [''ID3''] (Some (Exception ''connection reset'')))
   \<and> result (text_to_speech broken_stream sample_tts) =
     Inr \<lparr>status = 200, media_type = ''audio/mpeg'', body = [''ID3''],
          body_failure = Some (Exception ''connection reset'')\<rparr>"
  by (simp add: result_text_to_speech broken_stream_def mock_def)

end
